theory Spec2Isabelle
  imports Main "HOL-Library.Word"
begin

section \<open>JavaScript values as the relay sees them\<close>

text \<open>
  The relay (src/server.js, two revisions of one file) is untyped JavaScript working on
  parsed JSON: the request body, the query string and the upstream envelope. The values
  are modelled as they are at run time.

  A JavaScript string is a sequence of 16-bit code units. \<open>ascii\<close> embeds a literal
  whose characters are all ASCII.
\<close>

type_synonym jsstring = "16 word list"

definition ascii :: "string \<Rightarrow> jsstring" where
  "ascii s = map of_char s"

text \<open>
  Everything that can be thrown inside the handler ends in the same \<open>catch\<close>; the
  constructor only records where it came from.
\<close>

datatype error = TypeError | SyntaxError | FetchFailed

text \<open>
  A number is held by the string that the language's Number-to-String conversion gives for
  it (\<open>''42''\<close>, \<open>''0.7''\<close>, \<open>''1e+21''\<close>, \<open>''NaN''\<close>): the program never calculates with a
  number, it only converts one to a string, tests it for truthiness and asks for its
  \<open>typeof\<close>; the two zeros share the string \<open>''0''\<close> and agree on all three.
  An object is the association list of its own properties; the first binding of a key is
  the property's value.
\<close>

datatype jsval =
    JUndefined
  | JNull
  | JBool bool
  | JNum jsstring
  | JStr jsstring
  | JArr "jsval list"
  | JObj "(jsstring \<times> jsval) list"

definition nullish :: "jsval \<Rightarrow> bool" where
  "nullish v = (v = JUndefined \<or> v = JNull)"

text \<open>\<open>a ?? b\<close>\<close>

definition coalesce :: "jsval \<Rightarrow> jsval \<Rightarrow> jsval" where
  "coalesce a b = (if nullish a then b else a)"

text \<open>
  \<open>v.k\<close> on a value that is neither \<open>undefined\<close> nor \<open>null\<close>, for the property names
  this program reads (\<open>userMessage\<close>, \<open>contextPack\<close>, \<open>thread\<close>, \<open>turns\<close>, \<open>role\<close>,
  \<open>text\<close>, \<open>coachPersona\<close>, \<open>playerProfile\<close>, \<open>recentMatchesSummary\<close>, \<open>constraints\<close>,
  \<open>candidates\<close>, \<open>content\<close>, \<open>parts\<close>, \<open>finishReason\<close>, \<open>usageMetadata\<close>): none of them is
  defined on a built-in prototype, so the read finds an own property of an object or
  yields \<open>undefined\<close>.
\<close>

definition getProp :: "jsval \<Rightarrow> jsstring \<Rightarrow> jsval" where
  "getProp v k =
     (case v of
        JObj kvs \<Rightarrow> (case map_of kvs k of None \<Rightarrow> JUndefined | Some x \<Rightarrow> x)
      | _ \<Rightarrow> JUndefined)"

text \<open>\<open>v?.k\<close>\<close>

definition opt_get :: "jsval \<Rightarrow> jsstring \<Rightarrow> jsval" where
  "opt_get v k = (if nullish v then JUndefined else getProp v k)"

text \<open>\<open>v?.[0]\<close>: the first element of an array, the first code unit of a string, the
  property \<open>"0"\<close> of an object.\<close>

definition opt_index0 :: "jsval \<Rightarrow> jsval" where
  "opt_index0 v =
     (case v of
        JArr xs \<Rightarrow> (case xs of [] \<Rightarrow> JUndefined | x # _ \<Rightarrow> x)
      | JStr s \<Rightarrow> (case s of [] \<Rightarrow> JUndefined | c # _ \<Rightarrow> JStr [c])
      | JObj kvs \<Rightarrow> (case map_of kvs (ascii ''0'') of None \<Rightarrow> JUndefined | Some x \<Rightarrow> x)
      | _ \<Rightarrow> JUndefined)"

text \<open>\<open>!v\<close> is \<open>\<not> truthy v\<close>.\<close>

definition truthy :: "jsval \<Rightarrow> bool" where
  "truthy v =
     (case v of
        JUndefined \<Rightarrow> False
      | JNull \<Rightarrow> False
      | JBool b \<Rightarrow> b
      | JNum r \<Rightarrow> r \<noteq> ascii ''0'' \<and> r \<noteq> ascii ''NaN''
      | JStr s \<Rightarrow> s \<noteq> []
      | JArr _ \<Rightarrow> True
      | JObj _ \<Rightarrow> True)"

definition typeof :: "jsval \<Rightarrow> jsstring" where
  "typeof v =
     (case v of
        JUndefined \<Rightarrow> ascii ''undefined''
      | JNull \<Rightarrow> ascii ''object''
      | JBool _ \<Rightarrow> ascii ''boolean''
      | JNum _ \<Rightarrow> ascii ''number''
      | JStr _ \<Rightarrow> ascii ''string''
      | JArr _ \<Rightarrow> ascii ''object''
      | JObj _ \<Rightarrow> ascii ''object'')"

text \<open>
  The conversion to a string behind \<open>String(v)\<close>, a template literal's \<open>${v}\<close> and the
  elements of \<open>Array.prototype.join\<close>. An array is joined with commas. A plain object goes
  through its \<open>toString\<close> method, then \<open>valueOf\<close>: the inherited \<open>toString\<close> answers
  \<open>[object Object]\<close>, but an own property \<open>toString\<close> of a parsed object is never a
  function and hides it, the remaining \<open>valueOf\<close> does not yield a primitive, and the
  conversion throws a TypeError.

  \<open>join sep xs\<close> is \<open>xs.join(sep)\<close>: \<open>undefined\<close> and \<open>null\<close> elements give the empty
  string.
\<close>

fun ToString :: "jsval \<Rightarrow> error + jsstring"
and join :: "jsstring \<Rightarrow> jsval list \<Rightarrow> error + jsstring" where
  "ToString JUndefined = Inr (ascii ''undefined'')"
| "ToString JNull = Inr (ascii ''null'')"
| "ToString (JBool b) = Inr (if b then ascii ''true'' else ascii ''false'')"
| "ToString (JNum r) = Inr r"
| "ToString (JStr s) = Inr s"
| "ToString (JArr xs) = join (ascii '','') xs"
| "ToString (JObj kvs) =
     (case map_of kvs (ascii ''toString'') of
        None \<Rightarrow> Inr (ascii ''[object Object]'')
      | Some _ \<Rightarrow> Inl TypeError)"
| "join sep [] = Inr []"
| "join sep (x # xs) =
     (case (if x = JUndefined \<or> x = JNull then Inr [] else ToString x) of
        Inl e \<Rightarrow> Inl e
      | Inr s \<Rightarrow>
          (if xs = [] then Inr s
           else (case join sep xs of
                   Inl e \<Rightarrow> Inl e
                 | Inr r \<Rightarrow> Inr (s @ sep @ r))))"


text \<open>
  \<open>String.prototype.trim\<close> removes the language's white space and line terminators from
  both ends.
\<close>

definition isWhiteSpace :: "16 word \<Rightarrow> bool" where
  "isWhiteSpace c =
     (c \<in> set [0x0009, 0x000A, 0x000B, 0x000C, 0x000D, 0x0020, 0x00A0, 0x1680,
               0x2000, 0x2001, 0x2002, 0x2003, 0x2004, 0x2005, 0x2006, 0x2007, 0x2008,
               0x2009, 0x200A, 0x2028, 0x2029, 0x202F, 0x205F, 0x3000, 0xFEFF])"

definition trim :: "jsstring \<Rightarrow> jsstring" where
  "trim s = rev (dropWhile isWhiteSpace (rev (dropWhile isWhiteSpace s)))"

section \<open>Prompt assembly\<close>

text \<open>
  \<open>buildSystemBlock\<close> (the same text in both revisions): four fields read with
  \<open>contextPack?.f ?? ""\<close>, put into a template literal, the whole trimmed. The template
  converts each field to a string, from left to right.
\<close>

definition nl :: jsstring where
  "nl = [0x000A]"

definition systemTemplate :: "jsstring \<Rightarrow> jsstring \<Rightarrow> jsstring \<Rightarrow> jsstring \<Rightarrow> jsstring" where
  "systemTemplate coachPersona playerProfile recentMatchesSummary constraints =
     nl @ coachPersona @ nl @ nl @ playerProfile @ nl @ nl @
     ascii ''Recent matches:'' @ nl @ recentMatchesSummary @ nl @ nl @
     ascii ''Constraints:'' @ nl @ constraints @ nl"

definition buildSystemBlock :: "jsval \<Rightarrow> error + jsstring" where
  "buildSystemBlock contextPack =
     (let coachPersona = coalesce (opt_get contextPack (ascii ''coachPersona'')) (JStr []);
          playerProfile = coalesce (opt_get contextPack (ascii ''playerProfile'')) (JStr []);
          recentMatchesSummary =
            coalesce (opt_get contextPack (ascii ''recentMatchesSummary'')) (JStr []);
          constraints = coalesce (opt_get contextPack (ascii ''constraints'')) (JStr [])
      in case ToString coachPersona of Inl e \<Rightarrow> Inl e | Inr a \<Rightarrow>
         (case ToString playerProfile of Inl e \<Rightarrow> Inl e | Inr b \<Rightarrow>
         (case ToString recentMatchesSummary of Inl e \<Rightarrow> Inl e | Inr c \<Rightarrow>
         (case ToString constraints of Inl e \<Rightarrow> Inl e | Inr d \<Rightarrow>
            Inr (trim (systemTemplate a b c d))))))"

text \<open>
  A normalized turn is the object \<open>{role: r, parts: [{text: s}]}\<close>, built by the
  callback of \<open>normalizeThread\<close>; \<open>parts_text\<close> is the \<open>s\<close>.
\<close>

record turn =
  role :: jsstring
  parts_text :: jsstring

definition normalizeTurn :: "jsval \<Rightarrow> error + turn" where
  "normalizeTurn t =
     (let r = (if opt_get t (ascii ''role'') = JStr (ascii ''user'')
               then ascii ''user'' else ascii ''model'')
      in case ToString (coalesce (opt_get t (ascii ''text'')) (JStr [])) of
           Inl e \<Rightarrow> Inl e
         | Inr s \<Rightarrow> Inr \<lparr>role = r, parts_text = s\<rparr>)"

text \<open>\<open>xs.slice(start)\<close>: a negative start counts from the end and stops at the
  beginning.\<close>

definition slice :: "int \<Rightarrow> 'a list \<Rightarrow> 'a list" where
  "slice start xs =
     (let len = int (length xs);
          k = (if start < 0 then max (len + start) 0 else min start len)
      in drop (nat k) xs)"

text \<open>\<open>xs.map(f)\<close> for a callback that may throw: the first throw ends the loop.\<close>

fun mapE :: "('a \<Rightarrow> error + 'b) \<Rightarrow> 'a list \<Rightarrow> error + 'b list" where
  "mapE f [] = Inr []"
| "mapE f (x # xs) =
     (case f x of
        Inl e \<Rightarrow> Inl e
      | Inr y \<Rightarrow> (case mapE f xs of Inl e \<Rightarrow> Inl e | Inr ys \<Rightarrow> Inr (y # ys)))"

text \<open>
  \<open>normalizeThread\<close> (the same text in both revisions). Only an array has both a
  \<open>slice\<close> and a \<open>map\<close> method: on any other value that is not \<open>undefined\<close> or \<open>null\<close>
  one of the two calls throws a TypeError.
\<close>

definition normalizeThread :: "jsval \<Rightarrow> error + turn list" where
  "normalizeThread thread =
     (case coalesce (opt_get thread (ascii ''turns'')) (JArr []) of
        JArr ts \<Rightarrow> mapE normalizeTurn (slice (- 10) ts)
      | _ \<Rightarrow> Inl TypeError)"

section \<open>Reply extraction\<close>

text \<open>\<open>json?.candidates?.[0]?.content?.parts\<close>, in both revisions.\<close>

definition candidateParts :: "jsval \<Rightarrow> jsval" where
  "candidateParts json =
     opt_get (opt_get (opt_index0 (opt_get json (ascii ''candidates''))) (ascii ''content''))
       (ascii ''parts'')"

text \<open>The callback \<open>(p) => p?.text ?? ""\<close>, in both revisions.\<close>

definition partText :: "jsval \<Rightarrow> jsval" where
  "partText p = coalesce (opt_get p (ascii ''text'')) (JStr [])"

text \<open>The later revision's literal has a typographic apostrophe (U+2019).\<close>

definition fallbackReply :: jsstring where
  "fallbackReply = ascii ''I'' @ [0x2019] @ ascii ''m here. Tell me what you want to improve today.''"

text \<open>The earlier revision's literal has the three code units U+00E2 U+20AC U+2122 in
  the apostrophe's place.\<close>

definition fallbackReply_earlier :: jsstring where
  "fallbackReply_earlier =
     ascii ''I'' @ [0x00E2, 0x20AC, 0x2122] @
     ascii ''m here. Tell me what you want to improve today.''"

text \<open>\<open>extractReply\<close>, later revision only.\<close>

definition extractReply :: "jsval \<Rightarrow> error + jsstring" where
  "extractReply json =
     (case coalesce (candidateParts json) (JArr []) of
        JArr parts \<Rightarrow>
          (case join [] (map partText parts) of
             Inl e \<Rightarrow> Inl e
           | Inr text \<Rightarrow>
               Inr (if text \<noteq> [] \<and> length (trim text) > 0 then trim text
                    else fallbackReply))
      | _ \<Rightarrow> Inl TypeError)"

text \<open>
  The earlier revision's expression
  \<open>json?.candidates?.[0]?.content?.parts?.map(...).join("") || "..."\<close>:
  a missing \<open>parts\<close> ends the chain with \<open>undefined\<close>, and \<open>||\<close> replaces \<open>undefined\<close>
  and the empty string.
\<close>

definition inlineReply :: "jsval \<Rightarrow> error + jsstring" where
  "inlineReply json =
     (let parts = candidateParts json
      in if nullish parts then Inr fallbackReply_earlier
         else (case parts of
                 JArr ps \<Rightarrow>
                   (case join [] (map partText ps) of
                      Inl e \<Rightarrow> Inl e
                    | Inr text \<Rightarrow> Inr (if text \<noteq> [] then text else fallbackReply_earlier))
               | _ \<Rightarrow> Inl TypeError))"

section \<open>The handler of POST /coach/chat\<close>

text \<open>
  What the handler reads: the process environment, the parsed body and the \<open>debug\<close>
  entry of the parsed query. What it does to the world: at most calls \<open>fetch\<close>, and
  answers once. The upstream (\<open>fetch\<close>) and \<open>JSON.parse\<close> are parameters; the handler's
  result is its answer together with the list of upstream calls it made.
\<close>

text \<open>\<open>process.env\<close>: a variable is a string or is not set.\<close>

record environment =
  GEMINI_API_KEY :: "jsstring option"
  GEMINI_MODEL :: "jsstring option"

text \<open>\<open>req.body\<close> (\<open>JUndefined\<close> when there is none) and \<open>req.query.debug\<close>.\<close>

record request =
  req_body :: jsval
  query_debug :: jsval

text \<open>
  The upstream call: the URL and the JSON body
  \<open>{systemInstruction: {parts: [{text}]}, contents, generationConfig}\<close>; the method and
  the header are the same in every call. The temperature is kept as the literal's
  digits.
\<close>

record generationConfig =
  temperature :: jsstring
  maxOutputTokens :: nat
  responseMimeType :: "jsstring option"

record upstream_request =
  url :: jsstring
  systemInstruction :: jsstring
  contents :: "turn list"
  config :: generationConfig

text \<open>What the handler reads of the upstream's response: \<open>r.status\<close>, the body text,
  and \<open>r.ok\<close>, which is the status being in 200..299.\<close>

record upstream_response =
  status :: nat
  rawText :: jsstring

definition ok :: "upstream_response \<Rightarrow> bool" where
  "ok r = (200 \<le> status r \<and> status r \<le> 299)"

text \<open>
  The handler's answer \<open>res.status(code).json(body)\<close> (status 200 when none is set).
  The bodies it can send: \<open>{error}\<close>; \<open>{error, status, detail}\<close>; \<open>{reply}\<close>;
  \<open>{reply, meta: {model, finishReason, usage}, raw}\<close>.
\<close>

datatype response_body =
    ErrorBody jsstring
  | UpstreamFailure jsstring nat jsstring
  | ReplyBody jsstring
  | DebugBody jsstring jsstring jsval jsval jsval

record response =
  code :: nat
  body :: response_body

text \<open>The answer of the \<open>catch\<close>.\<close>

definition unexpected :: response where
  "unexpected = \<lparr>code = 500, body = ErrorBody (ascii ''Unexpected error'')\<rparr>"

definition endpoint :: "jsstring \<Rightarrow> jsstring \<Rightarrow> jsstring" where
  "endpoint model apiKey =
     ascii ''https://generativelanguage.googleapis.com/v1beta/models/'' @ model @
     ascii '':generateContent?key='' @ apiKey"

definition modelName :: "environment \<Rightarrow> jsstring" where
  "modelName env =
     (case GEMINI_MODEL env of None \<Rightarrow> ascii ''gemini-2.5-flash'' | Some m \<Rightarrow> m)"

text \<open>A name destructured from \<open>req.body ?? {}\<close>.\<close>

definition bodyField :: "request \<Rightarrow> jsstring \<Rightarrow> jsval" where
  "bodyField req k = getProp (coalesce (req_body req) (JObj [])) k"

text \<open>The code units of a value that is known to be a string (\<open>userMessage\<close> after
  its validation).\<close>

definition stringOf :: "jsval \<Rightarrow> jsstring" where
  "stringOf v = (case v of JStr s \<Rightarrow> s | _ \<Rightarrow> [])"

text \<open>The earlier revision (first file).\<close>

definition chat_earlier ::
  "(jsstring \<Rightarrow> error + jsval) \<Rightarrow> (upstream_request \<Rightarrow> error + upstream_response) \<Rightarrow>
   environment \<Rightarrow> request \<Rightarrow> response \<times> upstream_request list" where
  "chat_earlier JSON_parse fetch env req =
     (case GEMINI_API_KEY env of
        None \<Rightarrow> (\<lparr>code = 500, body = ErrorBody (ascii ''Missing GEMINI_API_KEY'')\<rparr>, [])
      | Some apiKey \<Rightarrow>
        if apiKey = [] then
          (\<lparr>code = 500, body = ErrorBody (ascii ''Missing GEMINI_API_KEY'')\<rparr>, [])
        else
          let userMessage = bodyField req (ascii ''userMessage'');
              contextPack = bodyField req (ascii ''contextPack'');
              thread = bodyField req (ascii ''thread'')
          in
          if \<not> truthy userMessage \<or> typeof userMessage \<noteq> ascii ''string'' then
            (\<lparr>code = 400, body = ErrorBody (ascii ''Missing or invalid userMessage'')\<rparr>, [])
          else if \<not> truthy contextPack \<or> typeof contextPack \<noteq> ascii ''object'' then
            (\<lparr>code = 400, body = ErrorBody (ascii ''Missing or invalid contextPack'')\<rparr>, [])
          else
            (case buildSystemBlock contextPack of
               Inl e \<Rightarrow> (unexpected, [])
             | Inr systemBlock \<Rightarrow>
            (case normalizeThread thread of
               Inl e \<Rightarrow> (unexpected, [])
             | Inr turns \<Rightarrow>
               let call = \<lparr>url = endpoint (modelName env) apiKey,
                           systemInstruction = systemBlock,
                           contents = turns @
                             [\<lparr>role = ascii ''user'', parts_text = stringOf userMessage\<rparr>],
                           config = \<lparr>temperature = ascii ''0.7'', maxOutputTokens = 600,
                                     responseMimeType = None\<rparr>\<rparr>
               in
               (case fetch call of
                  Inl e \<Rightarrow> (unexpected, [call])
                | Inr r \<Rightarrow>
                  if \<not> ok r then
                    (\<lparr>code = 502,
                      body = UpstreamFailure (ascii ''Gemini call failed'') (status r) (rawText r)\<rparr>,
                     [call])
                  else
                    (case JSON_parse (rawText r) of
                       Inl e \<Rightarrow> (unexpected, [call])
                     | Inr json \<Rightarrow>
                       (case inlineReply json of
                          Inl e \<Rightarrow> (unexpected, [call])
                        | Inr reply \<Rightarrow> (\<lparr>code = 200, body = ReplyBody reply\<rparr>, [call])))))))"

text \<open>The later revision (second file): a larger token budget, a response format, the
  raw text read before the status test, \<open>extractReply\<close>, and the debug answer.\<close>

definition chat ::
  "(jsstring \<Rightarrow> error + jsval) \<Rightarrow> (upstream_request \<Rightarrow> error + upstream_response) \<Rightarrow>
   environment \<Rightarrow> request \<Rightarrow> response \<times> upstream_request list" where
  "chat JSON_parse fetch env req =
     (case GEMINI_API_KEY env of
        None \<Rightarrow> (\<lparr>code = 500, body = ErrorBody (ascii ''Missing GEMINI_API_KEY'')\<rparr>, [])
      | Some apiKey \<Rightarrow>
        if apiKey = [] then
          (\<lparr>code = 500, body = ErrorBody (ascii ''Missing GEMINI_API_KEY'')\<rparr>, [])
        else
          let userMessage = bodyField req (ascii ''userMessage'');
              contextPack = bodyField req (ascii ''contextPack'');
              thread = bodyField req (ascii ''thread'')
          in
          if \<not> truthy userMessage \<or> typeof userMessage \<noteq> ascii ''string'' then
            (\<lparr>code = 400, body = ErrorBody (ascii ''Missing or invalid userMessage'')\<rparr>, [])
          else if \<not> truthy contextPack \<or> typeof contextPack \<noteq> ascii ''object'' then
            (\<lparr>code = 400, body = ErrorBody (ascii ''Missing or invalid contextPack'')\<rparr>, [])
          else
            (case buildSystemBlock contextPack of
               Inl e \<Rightarrow> (unexpected, [])
             | Inr systemBlock \<Rightarrow>
            (case normalizeThread thread of
               Inl e \<Rightarrow> (unexpected, [])
             | Inr turns \<Rightarrow>
               let model = modelName env;
                   call = \<lparr>url = endpoint model apiKey,
                           systemInstruction = systemBlock,
                           contents = turns @
                             [\<lparr>role = ascii ''user'', parts_text = stringOf userMessage\<rparr>],
                           config = \<lparr>temperature = ascii ''0.7'', maxOutputTokens = 1200,
                                     responseMimeType = Some (ascii ''text/plain'')\<rparr>\<rparr>
               in
               (case fetch call of
                  Inl e \<Rightarrow> (unexpected, [call])
                | Inr r \<Rightarrow>
                  if \<not> ok r then
                    (\<lparr>code = 502,
                      body = UpstreamFailure (ascii ''Gemini call failed'') (status r) (rawText r)\<rparr>,
                     [call])
                  else
                    (case JSON_parse (rawText r) of
                       Inl e \<Rightarrow> (unexpected, [call])
                     | Inr json \<Rightarrow>
                       (case extractReply json of
                          Inl e \<Rightarrow> (unexpected, [call])
                        | Inr reply \<Rightarrow>
                          (case ToString (coalesce (query_debug req) (JStr [])) of
                             Inl e \<Rightarrow> (unexpected, [call])
                           | Inr d \<Rightarrow>
                             if d = ascii ''1'' then
                               (\<lparr>code = 200,
                                 body = DebugBody reply model
                                   (coalesce (opt_get (opt_index0 (opt_get json (ascii ''candidates'')))
                                      (ascii ''finishReason'')) JNull)
                                   (coalesce (opt_get json (ascii ''usageMetadata'')) JNull)
                                   json\<rparr>,
                                [call])
                             else (\<lparr>code = 200, body = ReplyBody reply\<rparr>, [call]))))))))"

section \<open>Facts about the value model\<close>

lemma typeof_string_iff: "typeof v = ascii ''string'' \<longleftrightarrow> (\<exists>s. v = JStr s)"
  by (cases v) (simp_all add: typeof_def ascii_def)

lemma typeof_object_iff:
  "typeof v = ascii ''object'' \<longleftrightarrow> v = JNull \<or> (\<exists>xs. v = JArr xs) \<or> (\<exists>kvs. v = JObj kvs)"
  by (cases v) (simp_all add: typeof_def ascii_def)

lemmas eval_defs =
  bodyField_def getProp_def coalesce_def nullish_def truthy_def typeof_def opt_get_def
  ascii_def stringOf_def

section \<open>The system instruction\<close>

lemma dropWhile_keep:
  assumes "\<not> isWhiteSpace x"
  shows "dropWhile isWhiteSpace (p @ x # r) = dropWhile isWhiteSpace p @ x # r"
  using assms by (induction p) auto

lemma trim_between:
  assumes "\<not> isWhiteSpace x" and "\<not> isWhiteSpace y"
  shows "trim (p @ x # m @ y # q) =
           dropWhile isWhiteSpace p @ x # m @ y # rev (dropWhile isWhiteSpace (rev q))"
proof -
  have "rev (dropWhile isWhiteSpace p @ x # m @ y # q) =
          rev q @ y # rev (dropWhile isWhiteSpace p @ x # m)"
    by simp
  then have "dropWhile isWhiteSpace (rev (dropWhile isWhiteSpace p @ x # m @ y # q)) =
          dropWhile isWhiteSpace (rev q) @ y # rev (dropWhile isWhiteSpace p @ x # m)"
    by (simp only: dropWhile_keep [OF assms(2)])
  then show ?thesis
    by (simp add: trim_def dropWhile_keep [OF assms(1)])
qed

lemma isWhiteSpace_nl: "isWhiteSpace 0x000A"
  by (simp add: isWhiteSpace_def)

lemma headers:
  "ascii ''Recent matches:'' = 0x52 # ascii ''ecent matches:''"
  "ascii ''Constraints:'' = ascii ''Constraints'' @ [0x3A]"
  "\<not> isWhiteSpace 0x52" "\<not> isWhiteSpace 0x3A"
  by (simp_all add: ascii_def isWhiteSpace_def)

lemma trim_systemTemplate:
  "trim (systemTemplate a b c d) =
     dropWhile isWhiteSpace (nl @ a @ nl @ nl @ b @ nl @ nl) @
     ascii ''Recent matches:'' @ nl @ c @ nl @ nl @ ascii ''Constraints:'' @
     rev (dropWhile isWhiteSpace (rev (nl @ d @ nl)))"
proof -
  let ?p = "nl @ a @ nl @ nl @ b @ nl @ nl"
  let ?m = "ascii ''ecent matches:'' @ nl @ c @ nl @ nl @ ascii ''Constraints''"
  let ?q = "nl @ d @ nl"
  have "systemTemplate a b c d = ?p @ 0x52 # ?m @ 0x3A # ?q"
    by (simp add: systemTemplate_def headers(1,2))
  then have "trim (systemTemplate a b c d) = trim (?p @ 0x52 # ?m @ 0x3A # ?q)"
    by (rule arg_cong)
  also have "\<dots> = dropWhile isWhiteSpace ?p @ 0x52 # ?m @ 0x3A #
                    rev (dropWhile isWhiteSpace (rev ?q))"
    by (rule trim_between [OF headers(3,4)])
  finally show ?thesis
    by (simp add: headers(1,2))
qed

lemma buildSystemBlock_Inr:
  assumes "ToString (coalesce (opt_get cp (ascii ''coachPersona'')) (JStr [])) = Inr a"
    and "ToString (coalesce (opt_get cp (ascii ''playerProfile'')) (JStr [])) = Inr b"
    and "ToString (coalesce (opt_get cp (ascii ''recentMatchesSummary'')) (JStr [])) = Inr c"
    and "ToString (coalesce (opt_get cp (ascii ''constraints'')) (JStr [])) = Inr d"
  shows "buildSystemBlock cp = Inr (trim (systemTemplate a b c d))"
  using assms by (simp add: buildSystemBlock_def)

lemma blank_field:
  assumes "v = JUndefined \<or> v = JNull \<or> v = JStr []"
  shows "ToString (coalesce v (JStr [])) = Inr []"
  using assms by (auto simp: coalesce_def nullish_def)

text \<open>
  C6. For every context pack whose four fields are each absent, \<open>null\<close> or the empty
  string, \<open>buildSystemBlock\<close> returns the template with four blank sections, trimmed:
  the header \<open>Recent matches:\<close>, three line feeds, the header \<open>Constraints:\<close>. For every
  context pack whose fields have string conversions \<open>a\<close>, \<open>b\<close>, \<open>c\<close>, \<open>d\<close> (a missing
  field converts to the empty string), the result has one shape: what the trim leaves of
  the first two sections, the two headers with the third section between them, and
  what the trim leaves of the fourth; no section and no header is ever omitted.
\<close>

theorem blank_system_block:
  "((\<forall>k\<in>{ascii ''coachPersona'', ascii ''playerProfile'', ascii ''recentMatchesSummary'',
           ascii ''constraints''}.
        opt_get contextPack k = JUndefined \<or> opt_get contextPack k = JNull \<or>
        opt_get contextPack k = JStr []) \<longrightarrow>
      buildSystemBlock contextPack =
        Inr (ascii ''Recent matches:'' @ nl @ nl @ nl @ ascii ''Constraints:''))
   \<and> (ToString (coalesce (opt_get contextPack (ascii ''coachPersona'')) (JStr [])) = Inr a \<and>
       ToString (coalesce (opt_get contextPack (ascii ''playerProfile'')) (JStr [])) = Inr b \<and>
       ToString (coalesce (opt_get contextPack (ascii ''recentMatchesSummary'')) (JStr [])) = Inr c \<and>
       ToString (coalesce (opt_get contextPack (ascii ''constraints'')) (JStr [])) = Inr d \<longrightarrow>
      buildSystemBlock contextPack =
        Inr (dropWhile isWhiteSpace (nl @ a @ nl @ nl @ b @ nl @ nl) @
             ascii ''Recent matches:'' @ nl @ c @ nl @ nl @ ascii ''Constraints:'' @
             rev (dropWhile isWhiteSpace (rev (nl @ d @ nl)))))"
proof (intro conjI impI)
  assume "\<forall>k\<in>{ascii ''coachPersona'', ascii ''playerProfile'', ascii ''recentMatchesSummary'',
           ascii ''constraints''}.
        opt_get contextPack k = JUndefined \<or> opt_get contextPack k = JNull \<or>
        opt_get contextPack k = JStr []"
  then have "buildSystemBlock contextPack = Inr (trim (systemTemplate [] [] [] []))"
    by (intro buildSystemBlock_Inr blank_field) simp_all
  then show "buildSystemBlock contextPack =
        Inr (ascii ''Recent matches:'' @ nl @ nl @ nl @ ascii ''Constraints:'')"
    by (simp add: trim_systemTemplate) (simp add: nl_def isWhiteSpace_nl)
next
  assume "ToString (coalesce (opt_get contextPack (ascii ''coachPersona'')) (JStr [])) = Inr a \<and>
       ToString (coalesce (opt_get contextPack (ascii ''playerProfile'')) (JStr [])) = Inr b \<and>
       ToString (coalesce (opt_get contextPack (ascii ''recentMatchesSummary'')) (JStr [])) = Inr c \<and>
       ToString (coalesce (opt_get contextPack (ascii ''constraints'')) (JStr [])) = Inr d"
  then have "buildSystemBlock contextPack = Inr (trim (systemTemplate a b c d))"
    by (intro buildSystemBlock_Inr) simp_all
  then show "buildSystemBlock contextPack =
        Inr (dropWhile isWhiteSpace (nl @ a @ nl @ nl @ b @ nl @ nl) @
             ascii ''Recent matches:'' @ nl @ c @ nl @ nl @ ascii ''Constraints:'' @
             rev (dropWhile isWhiteSpace (rev (nl @ d @ nl))))"
    by (simp only: trim_systemTemplate)
qed


theorem blank_system_block_witness:
  "buildSystemBlock (JObj []) =
     Inr (ascii ''Recent matches:'' @ nl @ nl @ nl @ ascii ''Constraints:'')
   \<and> buildSystemBlock
       (JObj [(ascii ''coachPersona'', JStr (ascii ''Coach'')),
              (ascii ''recentMatchesSummary'', JStr (ascii ''Won 6-4''))]) =
     Inr (ascii ''Coach'' @ nl @ nl @ nl @ nl @ ascii ''Recent matches:'' @ nl @
          ascii ''Won 6-4'' @ nl @ nl @ ascii ''Constraints:'')"
  using blank_system_block [of "JObj []" "[]" "[]" "[]" "[]"]
    blank_system_block [of "JObj [(ascii ''coachPersona'', JStr (ascii ''Coach'')),
              (ascii ''recentMatchesSummary'', JStr (ascii ''Won 6-4''))]"
      "ascii ''Coach''" "[]" "ascii ''Won 6-4''" "[]"]
  by (simp add: eval_defs nl_def isWhiteSpace_def)

section \<open>Thread normalization\<close>

lemma mapE_Inr_iff:
  "mapE f xs = Inr ys \<longleftrightarrow>
     length ys = length xs \<and> (\<forall>i<length xs. f (xs ! i) = Inr (ys ! i))"
proof (induction xs arbitrary: ys)
  case Nil
  then show ?case by auto
next
  case (Cons x xs)
  show ?case
  proof (cases ys)
    case Nil
    then show ?thesis by (simp split: sum.splits)
  next
    case ys: (Cons y ys')
    have "mapE f (x # xs) = Inr (y # ys') \<longleftrightarrow> f x = Inr y \<and> mapE f xs = Inr ys'"
      by (simp split: sum.splits)
    also have "\<dots> \<longleftrightarrow> f x = Inr y \<and> length ys' = length xs \<and>
                      (\<forall>i<length xs. f (xs ! i) = Inr (ys' ! i))"
      by (simp only: Cons.IH)
    also have "\<dots> \<longleftrightarrow> length (y # ys') = length (x # xs) \<and>
                      (\<forall>i<length (x # xs). f ((x # xs) ! i) = Inr ((y # ys') ! i))"
      by (auto simp: All_less_Suc2)
    finally show ?thesis
      by (simp only: ys)
  qed
qed

lemma slice_last_ten: "slice (- 10) xs = drop (length xs - 10) xs"
proof -
  have "nat (max (int (length xs) + - 10) 0) = length xs - 10"
    by linarith
  then show ?thesis
    by (simp add: slice_def Let_def)
qed

lemma normalizeThread_array:
  assumes "opt_get thread (ascii ''turns'') = JArr ts"
  shows "normalizeThread thread = mapE normalizeTurn (drop (length ts - 10) ts)"
  using assms by (simp add: normalizeThread_def coalesce_def nullish_def slice_last_ten)

lemma normalizeThread_Inr_iff:
  assumes "opt_get thread (ascii ''turns'') = JArr ts"
  shows "normalizeThread thread = Inr out \<longleftrightarrow>
           length out = min 10 (length ts) \<and>
           (\<forall>i<length out. normalizeTurn (ts ! (length ts - length out + i)) = Inr (out ! i))"
proof -
  have "length ts - 10 + i = length ts - min 10 (length ts) + i" for i
    by linarith
  then show ?thesis
    unfolding normalizeThread_array [OF assms] mapE_Inr_iff
    by (auto simp: min_def)
qed

lemma normalizeThread_absent:
  assumes "nullish (opt_get thread (ascii ''turns''))"
  shows "normalizeThread thread = Inr []"
  using assms by (simp add: normalizeThread_def coalesce_def slice_def)

lemma opt_get_nullish: "nullish v \<Longrightarrow> opt_get v k = JUndefined"
  by (simp add: opt_get_def)



lemma user_not_model: "ascii ''user'' \<noteq> ascii ''model''"
  by (simp add: ascii_def)

lemma normalizeTurn_role:
  assumes "normalizeTurn t = Inr u"
  shows "role u = (if opt_get t (ascii ''role'') = JStr (ascii ''user'')
                   then ascii ''user'' else ascii ''model'')"
  using assms by (auto simp: normalizeTurn_def Let_def split: sum.splits if_splits)



text \<open>
  C2. For a thread whose \<open>turns\<close> is an array of more than 10 elements, \<open>normalizeThread\<close>
  returns \<open>out\<close> exactly when \<open>out\<close> has 10 elements and the i-th is the normalization of
  the source turn at position \<open>length - 10 + i\<close>: the last 10 turns, in their order. With
  10 or fewer turns the output is the normalization of every turn, in order. An absent
  thread gives the empty list.
\<close>

theorem normalizeThread_keeps_last_ten:
  "(opt_get thread (ascii ''turns'') = JArr ts \<and> 10 < length ts \<longrightarrow>
      (\<forall>out. normalizeThread thread = Inr out \<longleftrightarrow>
         length out = 10 \<and>
         (\<forall>i<10. normalizeTurn (ts ! (length ts - 10 + i)) = Inr (out ! i))))
   \<and> (opt_get thread (ascii ''turns'') = JArr ts \<and> length ts \<le> 10 \<longrightarrow>
      (\<forall>out. normalizeThread thread = Inr out \<longleftrightarrow>
         length out = length ts \<and>
         (\<forall>i<length ts. normalizeTurn (ts ! i) = Inr (out ! i))))
   \<and> (nullish thread \<longrightarrow> normalizeThread thread = Inr [])"
proof (intro conjI impI allI)
  fix out
  assume a: "opt_get thread (ascii ''turns'') = JArr ts \<and> 10 < length ts"
  then show "normalizeThread thread = Inr out \<longleftrightarrow>
         length out = 10 \<and>
         (\<forall>i<10. normalizeTurn (ts ! (length ts - 10 + i)) = Inr (out ! i))"
    using normalizeThread_Inr_iff [of thread ts out] by auto
next
  fix out
  assume a: "opt_get thread (ascii ''turns'') = JArr ts \<and> length ts \<le> 10"
  then show "normalizeThread thread = Inr out \<longleftrightarrow>
         length out = length ts \<and>
         (\<forall>i<length ts. normalizeTurn (ts ! i) = Inr (out ! i))"
    using normalizeThread_Inr_iff [of thread ts out] by auto
next
  assume "nullish thread"
  then show "normalizeThread thread = Inr []"
    by (simp add: normalizeThread_absent opt_get_nullish nullish_def)
qed

theorem normalizeThread_keeps_last_ten_witness:
  "normalizeThread
     (JObj [(ascii ''turns'',
        JArr (map (\<lambda>s. JObj [(ascii ''text'', JStr (ascii s))])
          [''a'', ''b'', ''c'', ''d'', ''e'', ''f'', ''g'', ''h'', ''i'', ''j'', ''k'', ''l'']))]) =
   Inr (map (\<lambda>s. \<lparr>role = ascii ''model'', parts_text = ascii s\<rparr>)
          [''c'', ''d'', ''e'', ''f'', ''g'', ''h'', ''i'', ''j'', ''k'', ''l''])
   \<and> normalizeThread
     (JObj [(ascii ''turns'',
        JArr [JObj [(ascii ''role'', JStr (ascii ''user'')), (ascii ''text'', JStr (ascii ''a''))],
              JObj [(ascii ''text'', JStr (ascii ''b''))]])]) =
   Inr [\<lparr>role = ascii ''user'', parts_text = ascii ''a''\<rparr>,
        \<lparr>role = ascii ''model'', parts_text = ascii ''b''\<rparr>]
   \<and> normalizeThread JUndefined = Inr []"
proof -
  let ?ts = "map (\<lambda>s. JObj [(ascii ''text'', JStr (ascii s))])
          [''a'', ''b'', ''c'', ''d'', ''e'', ''f'', ''g'', ''h'', ''i'', ''j'', ''k'', ''l'']"
  let ?th = "JObj [(ascii ''turns'', JArr ?ts)]"
  let ?out = "map (\<lambda>s. \<lparr>role = ascii ''model'', parts_text = ascii s\<rparr>)
          [''c'', ''d'', ''e'', ''f'', ''g'', ''h'', ''i'', ''j'', ''k'', ''l'']"
  have h: "opt_get ?th (ascii ''turns'') = JArr ?ts \<and> 10 < length ?ts"
    by (simp add: eval_defs)
  have r: "length ?out = 10 \<and>
           (\<forall>i<10. normalizeTurn (?ts ! (length ?ts - 10 + i)) = Inr (?out ! i))"
    by (simp add: eval_nat_numeral All_less_Suc normalizeTurn_def eval_defs)
  let ?ts2 = "[JObj [(ascii ''role'', JStr (ascii ''user'')), (ascii ''text'', JStr (ascii ''a''))],
              JObj [(ascii ''text'', JStr (ascii ''b''))]]"
  let ?th2 = "JObj [(ascii ''turns'', JArr ?ts2)]"
  let ?out2 = "[\<lparr>role = ascii ''user'', parts_text = ascii ''a''\<rparr>,
        \<lparr>role = ascii ''model'', parts_text = ascii ''b''\<rparr>]"
  have h2: "opt_get ?th2 (ascii ''turns'') = JArr ?ts2 \<and> length ?ts2 \<le> 10"
    by (simp add: eval_defs)
  have r2: "length ?out2 = length ?ts2 \<and>
           (\<forall>i<length ?ts2. normalizeTurn (?ts2 ! i) = Inr (?out2 ! i))"
    by (simp add: eval_nat_numeral All_less_Suc normalizeTurn_def eval_defs)
  have n: "nullish JUndefined"
    by (simp add: nullish_def)
  from normalizeThread_keeps_last_ten [of ?th ?ts] h r
    normalizeThread_keeps_last_ten [of ?th2 ?ts2] h2 r2
    normalizeThread_keeps_last_ten [of JUndefined "[]"] n
  show ?thesis
    by blast
qed

text \<open>
  C3. For every turn of a normalized thread, the role is \<open>user\<close> exactly when the role
  of the source turn at the same place is the string \<open>user\<close>, and \<open>model\<close> for every
  other value of the source role (absent, \<open>null\<close>, another string, a value of another
  type).
\<close>

theorem normalized_role:
  assumes "opt_get thread (ascii ''turns'') = JArr ts"
    and "normalizeThread thread = Inr out"
    and "i < length out"
  shows "(role (out ! i) = ascii ''user'' \<longleftrightarrow>
            opt_get (ts ! (length ts - length out + i)) (ascii ''role'') = JStr (ascii ''user''))
       \<and> (role (out ! i) = ascii ''model'' \<longleftrightarrow>
            opt_get (ts ! (length ts - length out + i)) (ascii ''role'') \<noteq> JStr (ascii ''user''))"
proof -
  have "normalizeTurn (ts ! (length ts - length out + i)) = Inr (out ! i)"
    using assms normalizeThread_Inr_iff [of thread ts out] by blast
  from normalizeTurn_role [OF this] show ?thesis
    using user_not_model by auto
qed

theorem normalized_role_witness:
  "normalizeThread
     (JObj [(ascii ''turns'',
        JArr [JObj [(ascii ''role'', JStr (ascii ''user''))],
              JObj [(ascii ''role'', JStr (ascii ''assistant''))],
              JObj [],
              JObj [(ascii ''role'', JNull)],
              JObj [(ascii ''role'', JStr (ascii ''system''))]])]) =
   Inr [\<lparr>role = ascii ''user'', parts_text = []\<rparr>,
        \<lparr>role = ascii ''model'', parts_text = []\<rparr>,
        \<lparr>role = ascii ''model'', parts_text = []\<rparr>,
        \<lparr>role = ascii ''model'', parts_text = []\<rparr>,
        \<lparr>role = ascii ''model'', parts_text = []\<rparr>]
   \<and> opt_get (JObj [(ascii ''role'', JStr (ascii ''assistant''))]) (ascii ''role'') \<noteq>
       JStr (ascii ''user'')"
proof -
  let ?ts = "[JObj [(ascii ''role'', JStr (ascii ''user''))],
              JObj [(ascii ''role'', JStr (ascii ''assistant''))],
              JObj [],
              JObj [(ascii ''role'', JNull)],
              JObj [(ascii ''role'', JStr (ascii ''system''))]]"
  let ?th = "JObj [(ascii ''turns'', JArr ?ts)]"
  let ?out = "[\<lparr>role = ascii ''user'', parts_text = []\<rparr>,
        \<lparr>role = ascii ''model'', parts_text = []\<rparr>,
        \<lparr>role = ascii ''model'', parts_text = []\<rparr>,
        \<lparr>role = ascii ''model'', parts_text = []\<rparr>,
        \<lparr>role = ascii ''model'', parts_text = []\<rparr>]"
  have t: "opt_get ?th (ascii ''turns'') = JArr ?ts"
    by (simp add: eval_defs)
  have n: "normalizeThread ?th = Inr ?out"
    by (simp add: normalizeThread_def slice_def normalizeTurn_def eval_defs)
  have i: "1 < length ?out"
    by simp
  from normalized_role [OF t n i] n show ?thesis
    by simp
qed






text \<open>
  The conversion itself can throw: an object with an own property \<open>toString\<close> has no
  string conversion, and a turn with such a text makes \<open>normalizeThread\<close> throw.
\<close>

lemma own_toString_throws:
  "normalizeThread
     (JObj [(ascii ''turns'',
        JArr [JObj [(ascii ''text'', JObj [(ascii ''toString'', JNum (ascii ''1''))])]])]) =
   Inl TypeError"
  by (simp add: normalizeThread_def slice_def normalizeTurn_def eval_defs)

section \<open>The reply\<close>




lemma trim_Nil: "trim [] = []"
  by (simp add: trim_def)

lemma extractReply_array:
  assumes "candidateParts json = JArr ps \<or> nullish (candidateParts json) \<and> ps = []"
  shows "extractReply json =
           (case join [] (map partText ps) of
              Inl e \<Rightarrow> Inl e
            | Inr t \<Rightarrow> Inr (if trim t = [] then fallbackReply else trim t))"
  using assms
  by (auto simp: extractReply_def coalesce_def nullish_def trim_Nil split: sum.splits)





text \<open>
  The fallback literal of the source is written with a typographic apostrophe; it is not
  the same string with an ASCII apostrophe.
\<close>

lemma fallbackReply_apostrophe:
  "fallbackReply \<noteq> ascii ''I'm here. Tell me what you want to improve today.''"
  by (simp add: fallbackReply_def ascii_def)

lemma inlineReply_cases:
  "inlineReply json =
     (if nullish (candidateParts json) then Inr fallbackReply_earlier
      else (case candidateParts json of
              JArr ps \<Rightarrow>
                (case join [] (map partText ps) of
                   Inl e \<Rightarrow> Inl e
                 | Inr t \<Rightarrow> Inr (if t \<noteq> [] then t else fallbackReply_earlier))
            | _ \<Rightarrow> Inl TypeError))"
  by (simp add: inlineReply_def Let_def)

lemma extractReply_cases:
  "extractReply json =
     (if nullish (candidateParts json) then Inr fallbackReply
      else (case candidateParts json of
              JArr ps \<Rightarrow>
                (case join [] (map partText ps) of
                   Inl e \<Rightarrow> Inl e
                 | Inr t \<Rightarrow> Inr (if trim t = [] then fallbackReply else trim t))
            | _ \<Rightarrow> Inl TypeError))"
proof (cases "nullish (candidateParts json)")
  case True
  then show ?thesis
    using extractReply_array [of json "[]"] by (simp add: trim_Nil)
next
  case False
  then show ?thesis
    by (cases "candidateParts json")
       (auto simp: extractReply_def coalesce_def trim_Nil split: sum.splits)
qed

text \<open>
  C9, as amended. The two revisions throw on the same envelopes, and whenever the
  earlier revision's expression yields a reply that is not its fallback literal and
  that has no white space at either end, the later revision's \<open>extractReply\<close> yields the
  same reply.
\<close>

theorem revisions_agree_on_trimmed_text:
  "(\<forall>e. extractReply json = Inl e \<longleftrightarrow> inlineReply json = Inl e)
   \<and> (\<forall>r. inlineReply json = Inr r \<and> r \<noteq> fallbackReply_earlier \<and> trim r = r \<longrightarrow>
          extractReply json = Inr r)"
  unfolding inlineReply_cases extractReply_cases
  by (cases "candidateParts json") (auto split: sum.splits)

theorem revisions_agree_on_trimmed_text_witness:
  "inlineReply
     (JObj [(ascii ''candidates'',
        JArr [JObj [(ascii ''content'',
          JObj [(ascii ''parts'', JArr [JObj [(ascii ''text'', JStr (ascii ''hi''))]])])]])]) =
     Inr (ascii ''hi'')
   \<and> extractReply
     (JObj [(ascii ''candidates'',
        JArr [JObj [(ascii ''content'',
          JObj [(ascii ''parts'', JArr [JObj [(ascii ''text'', JStr (ascii ''hi''))]])])]])]) =
     Inr (ascii ''hi'')"
proof -
  let ?json = "JObj [(ascii ''candidates'',
        JArr [JObj [(ascii ''content'',
          JObj [(ascii ''parts'', JArr [JObj [(ascii ''text'', JStr (ascii ''hi''))]])])]])]"
  have i: "inlineReply ?json = Inr (ascii ''hi'')"
    by (simp add: inlineReply_def candidateParts_def opt_index0_def partText_def eval_defs)
  have n: "ascii ''hi'' \<noteq> fallbackReply_earlier"
    by (simp add: fallbackReply_earlier_def ascii_def)
  have t: "trim (ascii ''hi'') = ascii ''hi''"
    by (simp add: trim_def isWhiteSpace_def ascii_def)
  from revisions_agree_on_trimmed_text [of ?json] i n t show ?thesis
    by blast
qed

text \<open>
  The claim as stated fails on a text with white space around it: the later revision
  trims it, the earlier does not.
\<close>

theorem untrimmed_reply_counterexample:
  "extractReply
     (JObj [(ascii ''candidates'',
        JArr [JObj [(ascii ''content'',
          JObj [(ascii ''parts'', JArr [JObj [(ascii ''text'', JStr (ascii '' hi ''))]])])]])]) =
     Inr (ascii ''hi'')
   \<and> inlineReply
     (JObj [(ascii ''candidates'',
        JArr [JObj [(ascii ''content'',
          JObj [(ascii ''parts'', JArr [JObj [(ascii ''text'', JStr (ascii '' hi ''))]])])]])]) =
     Inr (ascii '' hi '')
   \<and> ascii ''hi'' \<noteq> ascii '' hi ''"
  by (simp add: extractReply_def inlineReply_def candidateParts_def opt_index0_def partText_def
      trim_def isWhiteSpace_def fallbackReply_earlier_def eval_defs)

text \<open>
  The two fallback literals differ as well, so the revisions also disagree on an envelope
  without text.
\<close>

lemma fallbacks_differ:
  "extractReply (JObj []) = Inr fallbackReply \<and> inlineReply (JObj []) = Inr fallbackReply_earlier
   \<and> fallbackReply \<noteq> fallbackReply_earlier"
  by (simp add: extractReply_def inlineReply_def candidateParts_def opt_index0_def
      fallbackReply_def fallbackReply_earlier_def eval_defs)

section \<open>The handler: validation, upstream failure, the catch\<close>

lemma userMessage_passes_iff:
  "truthy v \<and> typeof v = ascii ''string'' \<longleftrightarrow> (\<exists>s. v = JStr s \<and> s \<noteq> [])"
  by (cases v) (auto simp: typeof_string_iff truthy_def)

lemma contextPack_passes_iff:
  "truthy v \<and> typeof v = ascii ''object'' \<longleftrightarrow> \<not> nullish v \<and> typeof v = ascii ''object''"
  by (cases v) (auto simp: typeof_object_iff truthy_def nullish_def)

lemma nullish_falsy: "nullish v \<Longrightarrow> \<not> truthy v"
  by (auto simp: truthy_def nullish_def)

lemma handler_no_key:
  assumes "h = chat \<or> h = chat_earlier"
    and "GEMINI_API_KEY env = None \<or> GEMINI_API_KEY env = Some []"
  shows "h JSON_parse fetch env req =
          (\<lparr>code = 500, body = ErrorBody (ascii ''Missing GEMINI_API_KEY'')\<rparr>, [])"
  using assms by (auto simp: chat_def chat_earlier_def)

lemma handler_bad_userMessage:
  assumes "h = chat \<or> h = chat_earlier"
    and "GEMINI_API_KEY env = Some k" "k \<noteq> []"
    and "\<not> (truthy (bodyField req (ascii ''userMessage'')) \<and>
            typeof (bodyField req (ascii ''userMessage'')) = ascii ''string'')"
  shows "h JSON_parse fetch env req =
          (\<lparr>code = 400, body = ErrorBody (ascii ''Missing or invalid userMessage'')\<rparr>, [])"
  using assms by (auto simp: chat_def chat_earlier_def)

lemma handler_bad_contextPack:
  assumes "h = chat \<or> h = chat_earlier"
    and "GEMINI_API_KEY env = Some k" "k \<noteq> []"
    and "truthy (bodyField req (ascii ''userMessage'')) \<and>
         typeof (bodyField req (ascii ''userMessage'')) = ascii ''string''"
    and "\<not> (truthy (bodyField req (ascii ''contextPack'')) \<and>
            typeof (bodyField req (ascii ''contextPack'')) = ascii ''object'')"
  shows "h JSON_parse fetch env req =
          (\<lparr>code = 400, body = ErrorBody (ascii ''Missing or invalid contextPack'')\<rparr>, [])"
  using assms by (auto simp: chat_def chat_earlier_def)

lemma handler_bad_thread:
  assumes "h = chat \<or> h = chat_earlier"
    and "GEMINI_API_KEY env = Some k" "k \<noteq> []"
    and "truthy (bodyField req (ascii ''userMessage'')) \<and>
         typeof (bodyField req (ascii ''userMessage'')) = ascii ''string''"
    and "truthy (bodyField req (ascii ''contextPack'')) \<and>
         typeof (bodyField req (ascii ''contextPack'')) = ascii ''object''"
    and "normalizeThread (bodyField req (ascii ''thread'')) = Inl e"
  shows "h JSON_parse fetch env req = (unexpected, [])"
  using assms by (auto simp: chat_def chat_earlier_def split: sum.split)

lemma chat_call_outcome:
  "\<forall>c \<in> set (snd (chat JSON_parse fetch env req)).
     snd (chat JSON_parse fetch env req) = [c] \<and>
     (\<forall>r. fetch c = Inr r \<and> \<not> ok r \<longrightarrow>
        fst (chat JSON_parse fetch env req) =
          \<lparr>code = 502,
           body = UpstreamFailure (ascii ''Gemini call failed'') (status r) (rawText r)\<rparr>)"
  by (simp add: chat_def Let_def split: option.split sum.split)

lemma chat_earlier_call_outcome:
  "\<forall>c \<in> set (snd (chat_earlier JSON_parse fetch env req)).
     snd (chat_earlier JSON_parse fetch env req) = [c] \<and>
     (\<forall>r. fetch c = Inr r \<and> \<not> ok r \<longrightarrow>
        fst (chat_earlier JSON_parse fetch env req) =
          \<lparr>code = 502,
           body = UpstreamFailure (ascii ''Gemini call failed'') (status r) (rawText r)\<rparr>)"
  by (simp add: chat_earlier_def Let_def split: option.split sum.split)

lemma handler_call_outcome:
  assumes "h = chat \<or> h = chat_earlier" and "c \<in> set (snd (h JSON_parse fetch env req))"
  shows "snd (h JSON_parse fetch env req) = [c]"
    and "fetch c = Inr r \<Longrightarrow> \<not> ok r \<Longrightarrow>
         fst (h JSON_parse fetch env req) =
           \<lparr>code = 502,
            body = UpstreamFailure (ascii ''Gemini call failed'') (status r) (rawText r)\<rparr>"
  using assms chat_call_outcome [of JSON_parse fetch env req]
    chat_earlier_call_outcome [of JSON_parse fetch env req]
  by blast+

lemma non_array_normalizeThread:
  assumes "opt_get thread (ascii ''turns'') = v" and "\<not> nullish v" and "\<forall>ts. v \<noteq> JArr ts"
  shows "normalizeThread thread = Inl TypeError"
  using assms by (cases v) (simp_all add: normalizeThread_def coalesce_def)

text \<open>
  C5. Both revisions check their preconditions in one order and answer at the first that
  fails, without calling the upstream: an absent (or empty) credential gives 500
  "Missing GEMINI_API_KEY"; with a credential, a \<open>userMessage\<close> that is missing or not a
  string gives 400 "Missing or invalid userMessage"; with a credential and a
  \<open>userMessage\<close> that passed, a \<open>contextPack\<close> that is missing or not an object gives
  400 "Missing or invalid contextPack". The upstream is called only when all three
  passed, and at most once. "Missing" is the code's \<open>!x\<close>: the value is falsy, which
  holds for an absent field, for \<open>null\<close> and for the empty string.
\<close>

theorem validation_order:
  assumes "h = chat \<or> h = chat_earlier"
  shows
    "(GEMINI_API_KEY env = None \<or> GEMINI_API_KEY env = Some [] \<longrightarrow>
        h JSON_parse fetch env req =
          (\<lparr>code = 500, body = ErrorBody (ascii ''Missing GEMINI_API_KEY'')\<rparr>, []))
     \<and> ((\<exists>k. GEMINI_API_KEY env = Some k \<and> k \<noteq> []) \<and>
          (\<not> truthy (bodyField req (ascii ''userMessage'')) \<or>
           typeof (bodyField req (ascii ''userMessage'')) \<noteq> ascii ''string'') \<longrightarrow>
        h JSON_parse fetch env req =
          (\<lparr>code = 400, body = ErrorBody (ascii ''Missing or invalid userMessage'')\<rparr>, []))
     \<and> ((\<exists>k. GEMINI_API_KEY env = Some k \<and> k \<noteq> []) \<and>
          truthy (bodyField req (ascii ''userMessage'')) \<and>
          typeof (bodyField req (ascii ''userMessage'')) = ascii ''string'' \<and>
          (\<not> truthy (bodyField req (ascii ''contextPack'')) \<or>
           typeof (bodyField req (ascii ''contextPack'')) \<noteq> ascii ''object'') \<longrightarrow>
        h JSON_parse fetch env req =
          (\<lparr>code = 400, body = ErrorBody (ascii ''Missing or invalid contextPack'')\<rparr>, []))
     \<and> (snd (h JSON_parse fetch env req) \<noteq> [] \<longrightarrow>
          (\<exists>k. GEMINI_API_KEY env = Some k \<and> k \<noteq> []) \<and>
          truthy (bodyField req (ascii ''userMessage'')) \<and>
          typeof (bodyField req (ascii ''userMessage'')) = ascii ''string'' \<and>
          truthy (bodyField req (ascii ''contextPack'')) \<and>
          typeof (bodyField req (ascii ''contextPack'')) = ascii ''object'')
     \<and> length (snd (h JSON_parse fetch env req)) \<le> 1"
proof -
  let ?um = "bodyField req (ascii ''userMessage'')"
  let ?cp = "bodyField req (ascii ''contextPack'')"
  let ?res = "h JSON_parse fetch env req"
  let ?key = "\<exists>k. GEMINI_API_KEY env = Some k \<and> k \<noteq> []"
  have c1: "?res = (\<lparr>code = 500, body = ErrorBody (ascii ''Missing GEMINI_API_KEY'')\<rparr>, [])"
    if "GEMINI_API_KEY env = None \<or> GEMINI_API_KEY env = Some []"
    using handler_no_key [OF assms that] .
  have c2: "?res = (\<lparr>code = 400, body = ErrorBody (ascii ''Missing or invalid userMessage'')\<rparr>, [])"
    if "?key" and "\<not> (truthy ?um \<and> typeof ?um = ascii ''string'')"
    using that handler_bad_userMessage [OF assms] by blast
  have c3: "?res = (\<lparr>code = 400, body = ErrorBody (ascii ''Missing or invalid contextPack'')\<rparr>, [])"
    if "?key" and "truthy ?um \<and> typeof ?um = ascii ''string''"
      and "\<not> (truthy ?cp \<and> typeof ?cp = ascii ''object'')"
    using that handler_bad_contextPack [OF assms] by blast
  have k: "?key \<or> GEMINI_API_KEY env = None \<or> GEMINI_API_KEY env = Some []"
    by (cases "GEMINI_API_KEY env") auto
  have c4: "?key \<and> (truthy ?um \<and> typeof ?um = ascii ''string'') \<and>
            (truthy ?cp \<and> typeof ?cp = ascii ''object'')"
    if "snd ?res \<noteq> []"
  proof (rule ccontr)
    assume "\<not> ?thesis"
    then have "snd ?res = []"
      using k c1 c2 c3 by (metis snd_conv)
    with that show False by simp
  qed
  have c5: "length (snd ?res) \<le> 1"
  proof (cases "snd ?res")
    case Nil
    then show ?thesis by simp
  next
    case (Cons c cs)
    then have "c \<in> set (snd ?res)" by simp
    from handler_call_outcome(1) [OF assms this] show ?thesis by simp
  qed
  show ?thesis
  proof (intro conjI impI)
    assume "GEMINI_API_KEY env = None \<or> GEMINI_API_KEY env = Some []"
    then show "?res = (\<lparr>code = 500, body = ErrorBody (ascii ''Missing GEMINI_API_KEY'')\<rparr>, [])"
      by (rule c1)
  next
    assume "?key \<and> (\<not> truthy ?um \<or> typeof ?um \<noteq> ascii ''string'')"
    then show "?res = (\<lparr>code = 400, body = ErrorBody (ascii ''Missing or invalid userMessage'')\<rparr>, [])"
      using c2 by blast
  next
    assume "?key \<and> truthy ?um \<and> typeof ?um = ascii ''string'' \<and>
            (\<not> truthy ?cp \<or> typeof ?cp \<noteq> ascii ''object'')"
    then show "?res = (\<lparr>code = 400, body = ErrorBody (ascii ''Missing or invalid contextPack'')\<rparr>, [])"
      using c3 by blast
  next
    assume "snd ?res \<noteq> []"
    from c4 [OF this] show "?key" by blast
  next
    assume "snd ?res \<noteq> []"
    from c4 [OF this] show "truthy ?um" by blast
  next
    assume "snd ?res \<noteq> []"
    from c4 [OF this] show "typeof ?um = ascii ''string''" by blast
  next
    assume "snd ?res \<noteq> []"
    from c4 [OF this] show "truthy ?cp" by blast
  next
    assume "snd ?res \<noteq> []"
    from c4 [OF this] show "typeof ?cp = ascii ''object''" by blast
  next
    show "length (snd ?res) \<le> 1" by (rule c5)
  qed
qed

theorem validation_order_witness:
  "chat (\<lambda>_. Inl SyntaxError) (\<lambda>_. Inl FetchFailed)
     \<lparr>GEMINI_API_KEY = None, GEMINI_MODEL = None\<rparr>
     \<lparr>req_body = JObj [(ascii ''userMessage'', JStr (ascii ''hi'')),
                        (ascii ''contextPack'', JObj [])],
      query_debug = JUndefined\<rparr> =
     (\<lparr>code = 500, body = ErrorBody (ascii ''Missing GEMINI_API_KEY'')\<rparr>, [])
   \<and> chat (\<lambda>_. Inl SyntaxError) (\<lambda>_. Inl FetchFailed)
       \<lparr>GEMINI_API_KEY = Some (ascii ''key''), GEMINI_MODEL = None\<rparr>
       \<lparr>req_body = JObj [], query_debug = JUndefined\<rparr> =
     (\<lparr>code = 400, body = ErrorBody (ascii ''Missing or invalid userMessage'')\<rparr>, [])
   \<and> chat (\<lambda>_. Inl SyntaxError) (\<lambda>_. Inl FetchFailed)
       \<lparr>GEMINI_API_KEY = Some (ascii ''key''), GEMINI_MODEL = None\<rparr>
       \<lparr>req_body = JObj [(ascii ''userMessage'', JStr (ascii ''hi''))],
        query_debug = JUndefined\<rparr> =
     (\<lparr>code = 400, body = ErrorBody (ascii ''Missing or invalid contextPack'')\<rparr>, [])"
  using
    validation_order [of chat "\<lparr>GEMINI_API_KEY = None, GEMINI_MODEL = None\<rparr>"
      "(\<lambda>_. Inl SyntaxError)" "(\<lambda>_. Inl FetchFailed)"
      "\<lparr>req_body = JObj [(ascii ''userMessage'', JStr (ascii ''hi'')),
                         (ascii ''contextPack'', JObj [])],
        query_debug = JUndefined\<rparr>"]
    validation_order [of chat "\<lparr>GEMINI_API_KEY = Some (ascii ''key''), GEMINI_MODEL = None\<rparr>"
      "(\<lambda>_. Inl SyntaxError)" "(\<lambda>_. Inl FetchFailed)"
      "\<lparr>req_body = JObj [], query_debug = JUndefined\<rparr>"]
    validation_order [of chat "\<lparr>GEMINI_API_KEY = Some (ascii ''key''), GEMINI_MODEL = None\<rparr>"
      "(\<lambda>_. Inl SyntaxError)" "(\<lambda>_. Inl FetchFailed)"
      "\<lparr>req_body = JObj [(ascii ''userMessage'', JStr (ascii ''hi''))],
        query_debug = JUndefined\<rparr>"]
  by (simp add: eval_defs)


text \<open>
  C8. With a credential configured, a request whose \<open>userMessage\<close> is the empty string
  is answered 400 "Missing or invalid userMessage", in both revisions, and the upstream
  is not called: the empty string is falsy, so \<open>!userMessage\<close> holds.
\<close>

theorem empty_userMessage_rejected:
  assumes "GEMINI_API_KEY env = Some k" and "k \<noteq> []"
    and "bodyField req (ascii ''userMessage'') = JStr []"
    and "h = chat \<or> h = chat_earlier"
  shows "h JSON_parse fetch env req =
           (\<lparr>code = 400, body = ErrorBody (ascii ''Missing or invalid userMessage'')\<rparr>, [])"
  using assms by (auto simp: chat_def chat_earlier_def truthy_def)

theorem empty_userMessage_rejected_witness:
  "chat (\<lambda>_. Inl SyntaxError) (\<lambda>_. Inl FetchFailed)
     \<lparr>GEMINI_API_KEY = Some (ascii ''key''), GEMINI_MODEL = None\<rparr>
     \<lparr>req_body = JObj [(ascii ''userMessage'', JStr []), (ascii ''contextPack'', JObj [])],
      query_debug = JUndefined\<rparr> =
   (\<lparr>code = 400, body = ErrorBody (ascii ''Missing or invalid userMessage'')\<rparr>, [])"
  by (rule empty_userMessage_rejected [where k = "ascii ''key''" and h = chat])
     (simp_all add: eval_defs)

text \<open>
  C7. In both revisions, for a request that passes the three checks and whose system
  block and thread are assembled, the handler calls the upstream once, with the
  revision's generation parameters; when the upstream answers that call with a status
  outside 200..299, the handler answers 502 with the upstream's status code and its raw
  body text unchanged, and that call is the only one it made: there is no retry.
\<close>

theorem upstream_failure_502:
  assumes "GEMINI_API_KEY env = Some k" and "k \<noteq> []"
    and "bodyField req (ascii ''userMessage'') = JStr s" and "s \<noteq> []"
    and "\<not> nullish (bodyField req (ascii ''contextPack''))"
    and "typeof (bodyField req (ascii ''contextPack'')) = ascii ''object''"
    and "buildSystemBlock (bodyField req (ascii ''contextPack'')) = Inr systemBlock"
    and "normalizeThread (bodyField req (ascii ''thread'')) = Inr turns"
    and "h = chat \<and>
           cfg = \<lparr>temperature = ascii ''0.7'', maxOutputTokens = 1200,
                  responseMimeType = Some (ascii ''text/plain'')\<rparr>
         \<or> h = chat_earlier \<and>
           cfg = \<lparr>temperature = ascii ''0.7'', maxOutputTokens = 600, responseMimeType = None\<rparr>"
    and "fetch \<lparr>url = endpoint (modelName env) k, systemInstruction = systemBlock,
                contents = turns @ [\<lparr>role = ascii ''user'', parts_text = s\<rparr>],
                config = cfg\<rparr> = Inr r"
    and "\<not> ok r"
  shows "h JSON_parse fetch env req =
           (\<lparr>code = 502,
             body = UpstreamFailure (ascii ''Gemini call failed'') (status r) (rawText r)\<rparr>,
            [\<lparr>url = endpoint (modelName env) k, systemInstruction = systemBlock,
              contents = turns @ [\<lparr>role = ascii ''user'', parts_text = s\<rparr>],
              config = cfg\<rparr>])"
proof -
  have um: "truthy (bodyField req (ascii ''userMessage'')) \<and>
            typeof (bodyField req (ascii ''userMessage'')) = ascii ''string''"
    using assms(3,4) userMessage_passes_iff by blast
  have cp: "truthy (bodyField req (ascii ''contextPack'')) \<and>
            typeof (bodyField req (ascii ''contextPack'')) = ascii ''object''"
    using assms(5,6) contextPack_passes_iff by blast
  have st: "stringOf (bodyField req (ascii ''userMessage'')) = s"
    using assms(3) by (simp add: stringOf_def)
  from assms(9) show ?thesis
  proof
    assume a: "h = chat \<and>
           cfg = \<lparr>temperature = ascii ''0.7'', maxOutputTokens = 1200,
                  responseMimeType = Some (ascii ''text/plain'')\<rparr>"
    have "chat JSON_parse fetch env req =
           (\<lparr>code = 502,
             body = UpstreamFailure (ascii ''Gemini call failed'') (status r) (rawText r)\<rparr>,
            [\<lparr>url = endpoint (modelName env) k, systemInstruction = systemBlock,
              contents = turns @ [\<lparr>role = ascii ''user'', parts_text = s\<rparr>],
              config = \<lparr>temperature = ascii ''0.7'', maxOutputTokens = 1200,
                  responseMimeType = Some (ascii ''text/plain'')\<rparr>\<rparr>])"
      using assms(10) [unfolded conjunct2 [OF a]]
      by (simp add: chat_def assms(1,2,7,8,11) um cp st)
    with a show ?thesis by simp
  next
    assume a: "h = chat_earlier \<and>
           cfg = \<lparr>temperature = ascii ''0.7'', maxOutputTokens = 600, responseMimeType = None\<rparr>"
    have "chat_earlier JSON_parse fetch env req =
           (\<lparr>code = 502,
             body = UpstreamFailure (ascii ''Gemini call failed'') (status r) (rawText r)\<rparr>,
            [\<lparr>url = endpoint (modelName env) k, systemInstruction = systemBlock,
              contents = turns @ [\<lparr>role = ascii ''user'', parts_text = s\<rparr>],
              config = \<lparr>temperature = ascii ''0.7'', maxOutputTokens = 600,
                  responseMimeType = None\<rparr>\<rparr>])"
      using assms(10) [unfolded conjunct2 [OF a]]
      by (simp add: chat_earlier_def assms(1,2,7,8,11) um cp st)
    with a show ?thesis by simp
  qed
qed


theorem upstream_failure_502_witness:
  "chat (\<lambda>_. Inl SyntaxError) (\<lambda>_. Inr \<lparr>status = 503, rawText = ascii ''rate limited''\<rparr>)
     \<lparr>GEMINI_API_KEY = Some (ascii ''key''), GEMINI_MODEL = None\<rparr>
     \<lparr>req_body = JObj [(ascii ''userMessage'', JStr (ascii ''hi'')),
                        (ascii ''contextPack'', JObj [])],
      query_debug = JUndefined\<rparr> =
   (\<lparr>code = 502,
     body = UpstreamFailure (ascii ''Gemini call failed'') 503 (ascii ''rate limited'')\<rparr>,
    [\<lparr>url = endpoint (ascii ''gemini-2.5-flash'') (ascii ''key''),
      systemInstruction = ascii ''Recent matches:'' @ nl @ nl @ nl @ ascii ''Constraints:'',
      contents = [\<lparr>role = ascii ''user'', parts_text = ascii ''hi''\<rparr>],
      config = \<lparr>temperature = ascii ''0.7'', maxOutputTokens = 1200,
                responseMimeType = Some (ascii ''text/plain'')\<rparr>\<rparr>])
   \<and> chat_earlier (\<lambda>_. Inl SyntaxError)
       (\<lambda>_. Inr \<lparr>status = 503, rawText = ascii ''rate limited''\<rparr>)
     \<lparr>GEMINI_API_KEY = Some (ascii ''key''), GEMINI_MODEL = None\<rparr>
     \<lparr>req_body = JObj [(ascii ''userMessage'', JStr (ascii ''hi'')),
                        (ascii ''contextPack'', JObj [])],
      query_debug = JUndefined\<rparr> =
   (\<lparr>code = 502,
     body = UpstreamFailure (ascii ''Gemini call failed'') 503 (ascii ''rate limited'')\<rparr>,
    [\<lparr>url = endpoint (ascii ''gemini-2.5-flash'') (ascii ''key''),
      systemInstruction = ascii ''Recent matches:'' @ nl @ nl @ nl @ ascii ''Constraints:'',
      contents = [\<lparr>role = ascii ''user'', parts_text = ascii ''hi''\<rparr>],
      config = \<lparr>temperature = ascii ''0.7'', maxOutputTokens = 600,
                responseMimeType = None\<rparr>\<rparr>])"
proof -
  let ?F = "\<lambda>_::upstream_request.
              Inr \<lparr>status = 503, rawText = ascii ''rate limited''\<rparr> :: error + upstream_response"
  let ?env = "\<lparr>GEMINI_API_KEY = Some (ascii ''key''), GEMINI_MODEL = None\<rparr>"
  let ?req = "\<lparr>req_body = JObj [(ascii ''userMessage'', JStr (ascii ''hi'')),
                        (ascii ''contextPack'', JObj [])],
      query_debug = JUndefined\<rparr>"
  have k: "GEMINI_API_KEY ?env = Some (ascii ''key'')" "ascii ''key'' \<noteq> []"
    by (simp_all add: ascii_def)
  have um: "bodyField ?req (ascii ''userMessage'') = JStr (ascii ''hi'')" "ascii ''hi'' \<noteq> []"
    by (simp_all add: eval_defs)
  have cp: "\<not> nullish (bodyField ?req (ascii ''contextPack''))"
    "typeof (bodyField ?req (ascii ''contextPack'')) = ascii ''object''"
    by (simp_all add: eval_defs)
  have sb: "buildSystemBlock (bodyField ?req (ascii ''contextPack'')) =
              Inr (ascii ''Recent matches:'' @ nl @ nl @ nl @ ascii ''Constraints:'')"
    by (simp add: eval_defs buildSystemBlock_def systemTemplate_def nl_def trim_def
        isWhiteSpace_def)
  have nt: "normalizeThread (bodyField ?req (ascii ''thread'')) = Inr []"
    by (simp add: eval_defs normalizeThread_def slice_def)
  have m: "modelName ?env = ascii ''gemini-2.5-flash''"
    by (simp add: modelName_def)
  have nok: "\<not> ok \<lparr>status = 503, rawText = ascii ''rate limited''\<rparr>"
    by (simp add: ok_def)
  from upstream_failure_502 [where h = chat and fetch = ?F and JSON_parse = "\<lambda>_. Inl SyntaxError"
        and cfg = "\<lparr>temperature = ascii ''0.7'', maxOutputTokens = 1200,
                responseMimeType = Some (ascii ''text/plain'')\<rparr>",
        OF k um cp sb nt _ _ nok]
    upstream_failure_502 [where h = chat_earlier and fetch = ?F
        and JSON_parse = "\<lambda>_. Inl SyntaxError"
        and cfg = "\<lparr>temperature = ascii ''0.7'', maxOutputTokens = 600,
                responseMimeType = None\<rparr>",
        OF k um cp sb nt _ _ nok]
  show ?thesis
    by (simp add: m)
qed

text \<open>
  C10. In both revisions, for a request that passes the three checks and whose thread has
  a \<open>turns\<close> that is neither \<open>undefined\<close> nor \<open>null\<close> nor an array, \<open>normalizeThread\<close>
  throws a TypeError and the handler's catch answers 500 "Unexpected error" (not a 400),
  before any upstream call.
\<close>

theorem non_array_turns_500:
  assumes "h = chat \<or> h = chat_earlier"
    and "GEMINI_API_KEY env = Some k" and "k \<noteq> []"
    and "bodyField req (ascii ''userMessage'') = JStr s" and "s \<noteq> []"
    and "\<not> nullish (bodyField req (ascii ''contextPack''))"
    and "typeof (bodyField req (ascii ''contextPack'')) = ascii ''object''"
    and "opt_get (bodyField req (ascii ''thread'')) (ascii ''turns'') = v"
    and "\<not> nullish v" and "\<forall>ts. v \<noteq> JArr ts"
  shows "normalizeThread (bodyField req (ascii ''thread'')) = Inl TypeError \<and>
         h JSON_parse fetch env req =
           (\<lparr>code = 500, body = ErrorBody (ascii ''Unexpected error'')\<rparr>, [])"
proof -
  have nt: "normalizeThread (bodyField req (ascii ''thread'')) = Inl TypeError"
    using non_array_normalizeThread assms(8,9,10) by blast
  have um: "truthy (bodyField req (ascii ''userMessage'')) \<and>
            typeof (bodyField req (ascii ''userMessage'')) = ascii ''string''"
    using assms(4,5) userMessage_passes_iff by blast
  have cp: "truthy (bodyField req (ascii ''contextPack'')) \<and>
            typeof (bodyField req (ascii ''contextPack'')) = ascii ''object''"
    using assms(6,7) contextPack_passes_iff by blast
  show ?thesis
    using nt handler_bad_thread [OF assms(1,2,3) um cp nt]
    by (simp add: unexpected_def)
qed


theorem non_array_turns_500_witness:
  "normalizeThread (JObj [(ascii ''turns'', JNum (ascii ''5''))]) = Inl TypeError
   \<and> chat (\<lambda>_. Inl SyntaxError) (\<lambda>_. Inl FetchFailed)
       \<lparr>GEMINI_API_KEY = Some (ascii ''key''), GEMINI_MODEL = None\<rparr>
       \<lparr>req_body = JObj [(ascii ''userMessage'', JStr (ascii ''hi'')),
                          (ascii ''contextPack'', JObj []),
                          (ascii ''thread'', JObj [(ascii ''turns'', JNum (ascii ''5''))])],
        query_debug = JUndefined\<rparr> =
     (\<lparr>code = 500, body = ErrorBody (ascii ''Unexpected error'')\<rparr>, [])"
  using non_array_turns_500 [where h = chat and k = "ascii ''key''" and s = "ascii ''hi''"
      and v = "JNum (ascii ''5'')" and JSON_parse = "\<lambda>_. Inl SyntaxError"
      and fetch = "\<lambda>_. Inl FetchFailed"
      and env = "\<lparr>GEMINI_API_KEY = Some (ascii ''key''), GEMINI_MODEL = None\<rparr>"
      and req = "\<lparr>req_body = JObj [(ascii ''userMessage'', JStr (ascii ''hi'')),
                          (ascii ''contextPack'', JObj []),
                          (ascii ''thread'', JObj [(ascii ''turns'', JNum (ascii ''5''))])],
        query_debug = JUndefined\<rparr>"]
  by (simp add: eval_defs)


end
